theory Spec2Isabelle
  imports Main
begin

section \<open>VS Code tunnel monitor: the polling and recovery loop of tunnel_monitor.py\<close>

text \<open>
  The monitor talks to the outside world through four kinds of call: it runs the external
  CLI (\<^verbatim>\<open>subprocess.run\<close>), it sleeps, it writes log lines and it repaints the tray
  icon. The model threads a record of the object's fields through every method and
  appends each such call to a chronological \<open>trace\<close>, so that a statement about
  commands issued, time slept or lines logged is a statement about the trace. What the
  outside world answers (the result of a subprocess, the value \<^verbatim>\<open>json.loads\<close> gives,
  the clock reading, a fault while rendering the icon) is an argument of the method.
\<close>

subsection \<open>Configuration\<close>

definition CHECK_INTERVAL :: nat where
  "CHECK_INTERVAL = 30"

definition RETRY_DELAY :: nat where
  "RETRY_DELAY = 10"

definition MAX_RETRIES :: int where
  "MAX_RETRIES = 3"

subsection \<open>Values and the environment\<close>

text \<open>
  A value produced by \<^verbatim>\<open>json.loads\<close>. A number is kept as its literal text: the
  program never inspects one. An object is the association list of its dict; lookup
  is \<open>map_of\<close>.
\<close>

datatype json =
    JNull
  | JBool bool
  | JNum string
  | JStr string
  | JArr "json list"
  | JObj "(string \<times> json) list"

text \<open>
  The exceptions the handlers tell apart, and \<open>Fault\<close> for every other subclass of
  \<^verbatim>\<open>Exception\<close>, with its message.
\<close>

datatype exn = TimeoutExpired | JSONDecodeError | AttributeError | Fault string

text \<open>
  What \<^verbatim>\<open>subprocess.run(..., capture_output=True, text=True)\<close> does: it raises, or it
  returns a completed process with \<open>returncode\<close>, \<open>stdout\<close> and \<open>stderr\<close>.
\<close>

datatype proc = Raised exn | Completed int string string

text \<open>
  The environment of one status probe: the result of the status command, what
  \<^verbatim>\<open>json.loads\<close> does on its standard output (\<open>Inr\<close> the value it returns, \<open>Inl\<close> the exception
  it raises, \<^verbatim>\<open>JSONDecodeError\<close> or any other) and what \<^verbatim>\<open>datetime.now()\<close>
  reads.
\<close>

record probe_env =
  p_run :: proc
  p_loads :: "exn + json"
  p_now :: nat

datatype colour = Green | Red

datatype level = INFO | WARNING | ERROR

text \<open>
  A formatted message is the list of the pieces of its f-string: literal text, a value
  interpolated with \<^verbatim>\<open>str\<close>, an exception, a counter, a time printed with
  \<^verbatim>\<open>strftime('%H:%M:%S')\<close>.
\<close>

datatype piece =
    Text string
  | Fmt_json json
  | Fmt_exn exn
  | Fmt_int int
  | Fmt_time nat

datatype event =
    Run_cli "string list" nat
  | Sleep nat
  | Log level "piece list"
  | Update_icon colour
  | Notify "piece list" string
  | Icon_stop

text \<open>
  The fields of \<^verbatim>\<open>TunnelMonitor\<close>. \<open>icon\<close> is \<open>None\<close> until \<^verbatim>\<open>start\<close> has built
  the tray icon; afterwards it holds the colour of the glyph the tray icon shows.
\<close>

record monitor =
  is_running :: bool
  tunnel_connected :: bool
  tunnel_name :: json
  last_check_time :: "nat option"
  icon :: "colour option"
  trace :: "event list"

definition init_monitor :: monitor where
  "init_monitor =
     \<lparr>is_running = False, tunnel_connected = False, tunnel_name = JStr ''Unknown'',
      last_check_time = None, icon = None, trace = []\<rparr>"

definition emit :: "event \<Rightarrow> monitor \<Rightarrow> monitor" where
  "emit e s = s\<lparr>trace := trace s @ [e]\<rparr>"

definition logging :: "level \<Rightarrow> piece list \<Rightarrow> monitor \<Rightarrow> monitor" where
  "logging l m = emit (Log l m)"

definition sleep :: "nat \<Rightarrow> monitor \<Rightarrow> monitor" where
  "sleep n = emit (Sleep n)"

definition status_cmd :: event where
  "status_cmd = Run_cli [''tunnel'', ''status''] 10"

definition restart_cmd :: event where
  "restart_cmd = Run_cli [''tunnel'', ''service'', ''restart''] 30"

subsection \<open>check_tunnel_status (lines 58 to 102)\<close>

text \<open>
  \<^verbatim>\<open>x.get(k, d)\<close>: defined on a dict only; any other value has no attribute
  \<^verbatim>\<open>get\<close>.
\<close>

fun py_get :: "json \<Rightarrow> string \<Rightarrow> json \<Rightarrow> exn + json" where
  "py_get (JObj kvs) k d = Inr (case map_of kvs k of None \<Rightarrow> d | Some v \<Rightarrow> v)"
| "py_get _ k d = Inl AttributeError"

text \<open>
  The way the \<^verbatim>\<open>try\<close> block of \<^verbatim>\<open>check_tunnel_status\<close> leaves lines 61 to 74,
  which read the environment only: with \<open>is_connected\<close> and \<open>tunnel_name\<close> extracted,
  through the \<^verbatim>\<open>else\<close> of the return code test, or with an exception.
\<close>

datatype outcome = Observed bool json | Non_zero string | Failed exn

definition probe_outcome :: "probe_env \<Rightarrow> outcome" where
  "probe_outcome pe =
     (case p_run pe of
        Raised e \<Rightarrow> Failed e
      | Completed returncode out err \<Rightarrow>
          if returncode = 0 then
            (case p_loads pe of
               Inl e \<Rightarrow> Failed e
             | Inr status_data \<Rightarrow>
                 (case py_get status_data ''tunnel'' (JObj []) of
                    Inl e \<Rightarrow> Failed e
                  | Inr tunnel_info \<Rightarrow>
                      (case py_get tunnel_info ''tunnel'' JNull of
                         Inl e \<Rightarrow> Failed e
                       | Inr st \<Rightarrow>
                           (case py_get tunnel_info ''name'' (JStr ''Unknown'') of
                              Inl e \<Rightarrow> Failed e
                            | Inr nm \<Rightarrow> Observed (st = JStr ''Connected'') nm))))
          else Non_zero err)"

definition quote :: string where
  "quote = [CHR 0x27]"

text \<open>
  The method itself: it runs the status command, then assigns the three fields and logs,
  or, on each of the failure paths, logs the error, clears \<open>tunnel_connected\<close> and
  returns False. The last handler is \<^verbatim>\<open>except Exception\<close>, so no exception leaves the
  method and its result is a plain pair.
\<close>

definition check_tunnel_status :: "probe_env \<Rightarrow> monitor \<Rightarrow> bool \<times> monitor" where
  "check_tunnel_status pe s =
     (let s0 = emit status_cmd s in
      case probe_outcome pe of
        Observed is_connected name \<Rightarrow>
          (let s1 = s0\<lparr>tunnel_connected := is_connected, tunnel_name := name,
                       last_check_time := Some (p_now pe)\<rparr>
           in (is_connected,
               if is_connected
               then logging INFO
                      [Text (''Tunnel '' @ quote), Fmt_json name, Text (quote @ '' is connected'')] s1
               else logging WARNING
                      [Text (''Tunnel '' @ quote), Fmt_json name,
                       Text (quote @ '' is not connected'')] s1))
      | Non_zero err \<Rightarrow>
          (False, (logging ERROR [Text ''Failed to check tunnel status: '', Text err] s0)
                    \<lparr>tunnel_connected := False\<rparr>)
      | Failed e \<Rightarrow>
          (case e of
             TimeoutExpired \<Rightarrow>
               (False, (logging ERROR [Text ''Timeout checking tunnel status''] s0)
                         \<lparr>tunnel_connected := False\<rparr>)
           | JSONDecodeError \<Rightarrow>
               (False, (logging ERROR [Text ''Failed to parse tunnel status JSON: '', Fmt_exn e] s0)
                         \<lparr>tunnel_connected := False\<rparr>)
           | _ \<Rightarrow>
               (False, (logging ERROR [Text ''Error checking tunnel status: '', Fmt_exn e] s0)
                         \<lparr>tunnel_connected := False\<rparr>)))"

text \<open>What a probe in environment \<open>pe\<close> returns to its caller.\<close>

definition reports_connected :: "probe_env \<Rightarrow> bool" where
  "reports_connected pe = (case probe_outcome pe of Observed c n \<Rightarrow> c | _ \<Rightarrow> False)"

subsection \<open>restart_tunnel (lines 104 to 128)\<close>

text \<open>
  \<open>r\<close> is the result of the restart command and \<open>pe\<close> the environment of the probe
  that follows it when the command exits with 0. The handler is \<^verbatim>\<open>except Exception\<close>:
  it catches the timeout as any other exception.
\<close>

definition restart_tunnel :: "proc \<Rightarrow> probe_env \<Rightarrow> monitor \<Rightarrow> bool \<times> monitor" where
  "restart_tunnel r pe s =
     (let s0 = emit restart_cmd (logging INFO [Text ''Attempting to restart tunnel...''] s) in
      case r of
        Raised e \<Rightarrow> (False, logging ERROR [Text ''Error restarting tunnel: '', Fmt_exn e] s0)
      | Completed returncode out err \<Rightarrow>
          if returncode = 0 then
            check_tunnel_status pe
              (sleep 5 (logging INFO [Text ''Tunnel service restart command executed''] s0))
          else (False, logging ERROR [Text ''Failed to restart tunnel: '', Text err] s0))"

text \<open>What a recovery attempt returns: the restart command and its follow-up probe.\<close>

definition recovers :: "proc \<Rightarrow> probe_env \<Rightarrow> bool" where
  "recovers r pe =
     (case r of Raised e \<Rightarrow> False
      | Completed returncode out err \<Rightarrow> returncode = 0 \<and> reports_connected pe)"

subsection \<open>update_icon (lines 162 to 165) and get_status_text (lines 167 to 177)\<close>

text \<open>
  \<^verbatim>\<open>update_icon\<close> does nothing while there is no tray icon. Otherwise it renders the
  glyph and assigns it; \<open>render\<close> is the exception the rendering raises, if any. The
  call itself is recorded in the trace.
\<close>

definition update_icon :: "exn option \<Rightarrow> colour \<Rightarrow> monitor \<Rightarrow> exn option \<times> monitor" where
  "update_icon render c s =
     (let s0 = emit (Update_icon c) s in
      case icon s0 of
        None \<Rightarrow> (None, s0)
      | Some old \<Rightarrow>
          (case render of
             Some e \<Rightarrow> (Some e, s0)
           | None \<Rightarrow> (None, s0\<lparr>icon := Some c\<rparr>)))"

definition check_mark :: string where
  "check_mark = [CHR 0xE2, CHR 0x9C, CHR 0x93]"

definition cross_mark :: string where
  "cross_mark = [CHR 0xE2, CHR 0x9C, CHR 0x97]"

definition get_status_text :: "monitor \<Rightarrow> piece list" where
  "get_status_text s =
     (if tunnel_connected s
      then [Text (check_mark @ '' Connected'' @ [CHR 0x0A] @ ''Tunnel: ''), Fmt_json (tunnel_name s)]
      else [Text (cross_mark @ '' Disconnected'')])
     @ (case last_check_time s of
          None \<Rightarrow> []
        | Some t \<Rightarrow> [Text (CHR 0x0A # ''Last check: ''), Fmt_time t])"

subsection \<open>monitoring_loop (lines 130 to 160)\<close>

text \<open>
  The environment of one iteration: the probe, then (when they are reached) the restart
  command and the probe after it, and the fault of the icon rendering.
\<close>

record tick_env =
  probe :: probe_env
  restart :: proc
  reprobe :: probe_env
  render :: "exn option"

text \<open>
  The \<^verbatim>\<open>try\<close> block of the loop body, on the object and the local \<open>retry_count\<close>. It
  returns the exception that left the block, if any, with the state reached.
\<close>

definition tick_try :: "tick_env \<Rightarrow> monitor \<times> int \<Rightarrow> exn option \<times> monitor \<times> int" where
  "tick_try env = (\<lambda>(s, retry_count).
     let (is_connected, s1) = check_tunnel_status (probe env) s in
     if is_connected then
       (case update_icon (render env) Green s1 of
          (Some e, s2) \<Rightarrow> (Some e, s2, 0)
        | (None, s2) \<Rightarrow> (None, sleep CHECK_INTERVAL s2, 0))
     else
       (case update_icon (render env) Red s1 of
          (Some e, s2) \<Rightarrow> (Some e, s2, retry_count)
        | (None, s2) \<Rightarrow>
            if retry_count < MAX_RETRIES then
              (let s3 = logging WARNING
                          [Text ''Tunnel disconnected. Attempting restart (attempt '',
                           Fmt_int (retry_count + 1), Text ''/'', Fmt_int MAX_RETRIES, Text '')''] s2;
                   (ok, s4) = restart_tunnel (restart env) (reprobe env) s3
               in if ok
                  then (None,
                        sleep CHECK_INTERVAL (logging INFO [Text ''Tunnel successfully restarted''] s4),
                        0)
                  else (None, sleep CHECK_INTERVAL (sleep RETRY_DELAY s4), retry_count + 1))
            else
              (None,
               sleep CHECK_INTERVAL
                 (sleep CHECK_INTERVAL
                    (logging ERROR
                       [Text ''Failed to restart tunnel after '', Fmt_int MAX_RETRIES,
                        Text '' attempts''] s2)),
               retry_count)))"

text \<open>One iteration of the loop: the \<^verbatim>\<open>try\<close> block and its handler.\<close>

definition tick :: "tick_env \<Rightarrow> monitor \<times> int \<Rightarrow> monitor \<times> int" where
  "tick env st =
     (case tick_try env st of
        (None, s, retry_count) \<Rightarrow> (s, retry_count)
      | (Some e, s, retry_count) \<Rightarrow>
          (sleep CHECK_INTERVAL (logging ERROR [Text ''Error in monitoring loop: '', Fmt_exn e] s),
           retry_count))"

fun ticks :: "tick_env list \<Rightarrow> monitor \<times> int \<Rightarrow> monitor \<times> int" where
  "ticks [] st = st"
| "ticks (env # envs) st = ticks envs (tick env st)"

subsection \<open>The menu handlers (lines 183 to 210)\<close>

text \<open>
  \<^verbatim>\<open>on_check_now\<close> and \<^verbatim>\<open>on_restart\<close> start a thread that probes or restarts;
  the model runs the thread's body as one step (\<^verbatim>\<open>on_check_now\<close> starts its thread
  before it notifies). \<^verbatim>\<open>on_quit\<close> clears the flag the loop
  tests and stops the tray icon.
\<close>

definition on_check_now :: "probe_env \<Rightarrow> monitor \<Rightarrow> monitor" where
  "on_check_now pe s =
     emit (Notify [Text ''Checking tunnel status...''] ''Tunnel Monitor'')
       (snd (check_tunnel_status pe s))"

definition on_restart :: "proc \<Rightarrow> probe_env \<Rightarrow> monitor \<Rightarrow> monitor" where
  "on_restart r pe s =
     (let s0 = emit (Notify [Text ''Restarting tunnel...''] ''Tunnel Monitor'') s;
          (ok, s1) = restart_tunnel r pe s0
      in if ok
         then emit (Notify [Text ''Tunnel restarted successfully''] ''Tunnel Monitor'') s1
         else emit (Notify [Text ''Failed to restart tunnel''] ''Tunnel Monitor'') s1)"

definition on_quit :: "monitor \<Rightarrow> monitor" where
  "on_quit s =
     emit Icon_stop ((logging INFO [Text ''Tunnel monitor stopping...''] s)\<lparr>is_running := False\<rparr>)"

text \<open>
  The loop runs on its own thread and the handlers on others. A schedule lists what
  happens, in order: an iteration of the loop with its environment, or a handler that
  runs between two iterations. \<open>retry_count\<close> is a local variable of
  \<^verbatim>\<open>monitoring_loop\<close>: a handler gets the object only.
\<close>

datatype action =
    Tick tick_env
  | Check_now probe_env
  | Restart proc probe_env
  | Quit

datatype loop_status = Looping | Exited

text \<open>
  \<^verbatim>\<open>while self.is_running\<close>: the flag is read at the head of each iteration. The
  result is \<open>Exited\<close> when the loop has been left, and \<open>Looping\<close> when the schedule
  ends with the thread still inside it.
\<close>

fun monitoring_loop :: "action list \<Rightarrow> monitor \<times> int \<Rightarrow> loop_status \<times> monitor \<times> int" where
  "monitoring_loop [] (s, retry_count) = (Looping, s, retry_count)"
| "monitoring_loop (Tick env # acts) (s, retry_count) =
     (if is_running s then monitoring_loop acts (tick env (s, retry_count))
      else (Exited, s, retry_count))"
| "monitoring_loop (Check_now pe # acts) (s, retry_count) =
     monitoring_loop acts (on_check_now pe s, retry_count)"
| "monitoring_loop (Restart r pe # acts) (s, retry_count) =
     monitoring_loop acts (on_restart r pe s, retry_count)"
| "monitoring_loop (Quit # acts) (s, retry_count) =
     monitoring_loop acts (on_quit s, retry_count)"

subsection \<open>Reading the trace\<close>

text \<open>
  The time slept, the restart commands issued and the status commands issued along a
  trace.
\<close>

fun slept :: "event list \<Rightarrow> nat" where
  "slept [] = 0"
| "slept (Sleep n # es) = n + slept es"
| "slept (e # es) = slept es"

definition restarts :: "event list \<Rightarrow> nat" where
  "restarts es = count_list es restart_cmd"

definition probes :: "event list \<Rightarrow> nat" where
  "probes es = count_list es status_cmd"

subsection \<open>Auxiliary notions and example inputs\<close>

text \<open>
  The events appended to the trace between two states.
\<close>

definition events_since :: "monitor \<Rightarrow> monitor \<Rightarrow> event list" where
  "events_since s s' = drop (length (trace s)) (trace s')"

text \<open>
  Whether \<^verbatim>\<open>update_icon\<close> raises in this iteration: there is a tray icon and the
  rendering faults.
\<close>

definition icon_raises :: "tick_env \<Rightarrow> monitor \<Rightarrow> bool" where
  "icon_raises env s = (icon s \<noteq> None \<and> render env \<noteq> None)"

text \<open>
  Example environments and states (\<open>dq\<close> is the double quote): a probe that times out, a probe that finds the
  tunnel \<open>dev-box\<close> connected, an iteration where probe and recovery both fail, one
  where the probe succeeds, and an object whose loop is running and whose tray icon is red.
\<close>

definition dq :: string where
  "dq = [CHR 0x22]"

definition timeout_probe :: probe_env where
  "timeout_probe = \<lparr>p_run = Raised TimeoutExpired, p_loads = Inl JSONDecodeError, p_now = 7\<rparr>"

definition connected_stdout :: string where
  "connected_stdout =
     ''{'' @ dq @ ''tunnel'' @ dq @ '': {'' @ dq @ ''name'' @ dq @ '': '' @ dq @ ''dev-box'' @ dq
     @ '', '' @ dq @ ''tunnel'' @ dq @ '': '' @ dq @ ''Connected'' @ dq @ ''}}''"

definition connected_probe :: probe_env where
  "connected_probe =
     \<lparr>p_run = Completed 0 connected_stdout [],
      p_loads =
        Inr (JObj [(''tunnel'',
                     JObj [(''name'', JStr ''dev-box''), (''tunnel'', JStr ''Connected'')])]),
      p_now = 9\<rparr>"

definition failing_tick :: tick_env where
  "failing_tick =
     \<lparr>probe = timeout_probe, restart = Completed 1 [] ''access denied'',
      reprobe = timeout_probe, render = None\<rparr>"

definition healthy_tick :: tick_env where
  "healthy_tick =
     \<lparr>probe = connected_probe, restart = Completed 0 [] [],
      reprobe = connected_probe, render = None\<rparr>"

definition running_monitor :: monitor where
  "running_monitor = init_monitor\<lparr>is_running := True, icon := Some Red\<rparr>"


text \<open>
  Whether a parsed value is a dict, the only kind of value with \<^verbatim>\<open>get\<close>.
\<close>

fun is_dict :: "json \<Rightarrow> bool" where
  "is_dict (JObj kvs) = True"
| "is_dict _ = False"

text \<open>
  Probes whose output parses but has not the expected nesting, and an object that has
  already seen the tunnel \<open>dev-box\<close> at time 3.
\<close>

definition null_tunnel_probe :: probe_env where
  "null_tunnel_probe =
     \<lparr>p_run = Completed 0 (''{'' @ dq @ ''tunnel'' @ dq @ '': null}'') [],
      p_loads = Inr (JObj [(''tunnel'', JNull)]),
      p_now = 11\<rparr>"

definition empty_object_probe :: probe_env where
  "empty_object_probe = \<lparr>p_run = Completed 0 ''{}'' [], p_loads = Inr (JObj []), p_now = 12\<rparr>"

definition named_monitor :: monitor where
  "named_monitor = running_monitor\<lparr>tunnel_connected := True, tunnel_name := JStr ''dev-box'',
     last_check_time := Some 3\<rparr>"

text \<open>
  A run of probes, one after the other, on the same object.
\<close>

fun checks :: "probe_env list \<Rightarrow> monitor \<Rightarrow> monitor" where
  "checks [] s = s"
| "checks (pe # pes) s = checks pes (snd (check_tunnel_status pe s))"

text \<open>
  Whether a probe reaches line 78, where \<^verbatim>\<open>last_check_time\<close> is assigned.
\<close>

definition stamps :: "probe_env \<Rightarrow> bool" where
  "stamps pe = (case probe_outcome pe of Observed c n \<Rightarrow> True | _ \<Rightarrow> False)"

text \<open>
  A probe of the expected shape: the status command exits with 0 and its output parses
  to an object in which \<open>tunnel\<close> is absent or is itself an object.
\<close>

definition status_shaped :: "probe_env \<Rightarrow> bool" where
  "status_shaped pe =
     (case p_run pe of
        Raised e \<Rightarrow> False
      | Completed returncode out err \<Rightarrow>
          returncode = 0 \<and>
          (case p_loads pe of
             Inl e \<Rightarrow> False
           | Inr j \<Rightarrow>
               (case j of
                  JObj kvs \<Rightarrow> (case map_of kvs ''tunnel'' of None \<Rightarrow> True | Some v \<Rightarrow> is_dict v)
                | _ \<Rightarrow> False)))"

text \<open>
  The number of manual restarts in a schedule.
\<close>

fun manual_restarts :: "action list \<Rightarrow> nat" where
  "manual_restarts [] = 0"
| "manual_restarts (Restart r pe # acts) = Suc (manual_restarts acts)"
| "manual_restarts (a # acts) = manual_restarts acts"

section \<open>Properties\<close>

subsection \<open>Auxiliary facts\<close>

lemmas io_defs = emit_def logging_def sleep_def

lemma slept_append: "slept (xs @ ys) = slept xs + slept ys"
  by (induction xs rule: slept.induct) simp_all

lemma check_fst: "fst (check_tunnel_status pe s) = reports_connected pe"
  by (simp add: check_tunnel_status_def reports_connected_def Let_def
      split: outcome.splits exn.splits)

lemma check_trace:
  "\<exists>l m. trace (snd (check_tunnel_status pe s)) = trace s @ [status_cmd, Log l m]"
  by (simp add: check_tunnel_status_def Let_def io_defs split: outcome.splits exn.splits)

lemma check_frame:
  "is_running (snd (check_tunnel_status pe s)) = is_running s"
  "icon (snd (check_tunnel_status pe s)) = icon s"
  by (simp_all add: check_tunnel_status_def Let_def io_defs split: outcome.splits exn.splits)

lemma check_slept: "slept (trace (snd (check_tunnel_status pe s))) = slept (trace s)"
  using check_trace [of pe s] by (auto simp: slept_append status_cmd_def)

lemma restart_fst: "fst (restart_tunnel r pe s) = recovers r pe"
  by (simp add: restart_tunnel_def recovers_def Let_def check_fst split: proc.splits)

lemma restart_frame:
  "is_running (snd (restart_tunnel r pe s)) = is_running s"
  "icon (snd (restart_tunnel r pe s)) = icon s"
  by (simp_all add: restart_tunnel_def Let_def io_defs check_frame split: proc.splits)

lemma check_connected_field:
  "tunnel_connected (snd (check_tunnel_status pe s)) = reports_connected pe"
  by (simp add: check_tunnel_status_def reports_connected_def Let_def io_defs
      split: outcome.splits exn.splits)

lemma update_icon_frame:
  "tunnel_connected (snd (update_icon r c s)) = tunnel_connected s"
  "is_running (snd (update_icon r c s)) = is_running s"
  "trace (snd (update_icon r c s)) = trace s @ [Update_icon c]"
  by (simp_all add: update_icon_def Let_def io_defs split: option.splits)

lemma update_icon_fst:
  "fst (update_icon r c s) = (if icon s = None then None else r)"
  by (simp add: update_icon_def Let_def io_defs split: option.splits)

lemma update_icon_icon:
  "icon (snd (update_icon r c s)) = (if icon s = None \<or> r \<noteq> None then icon s else Some c)"
  by (auto simp add: update_icon_def Let_def io_defs split: option.splits)

lemma tick_connected_eq:
  assumes "reports_connected (probe env)"
  shows "tick env (s, rc) =
     (let s2 = snd (update_icon (render env) Green (snd (check_tunnel_status (probe env) s))) in
      case fst (update_icon (render env) Green (snd (check_tunnel_status (probe env) s))) of
        None \<Rightarrow> (sleep CHECK_INTERVAL s2, 0)
      | Some e \<Rightarrow> (sleep CHECK_INTERVAL (logging ERROR [Text ''Error in monitoring loop: '', Fmt_exn e] s2), 0))"
  using assms
  by (simp add: tick_def tick_try_def case_prod_beta Let_def check_fst split: option.splits prod.splits)

lemma io_trace:
  "trace (emit e s) = trace s @ [e]"
  "trace (logging l m s) = trace s @ [Log l m]"
  "trace (sleep n s) = trace s @ [Sleep n]"
  by (simp_all add: io_defs)

lemma io_frame:
  "is_running (emit e s) = is_running s" "icon (emit e s) = icon s"
  "is_running (logging l m s) = is_running s" "icon (logging l m s) = icon s"
  "is_running (sleep n s) = is_running s" "icon (sleep n s) = icon s"
  "tunnel_connected (emit e s) = tunnel_connected s"
  "tunnel_connected (logging l m s) = tunnel_connected s"
  "tunnel_connected (sleep n s) = tunnel_connected s"
  by (simp_all add: io_defs)

lemma restarts_append: "restarts (xs @ ys) = restarts xs + restarts ys"
  by (induction xs) (simp_all add: restarts_def)

lemma restarts_single:
  "restarts [] = 0"
  "restarts (Log l m # es) = restarts es" "restarts (Sleep n # es) = restarts es"
  "restarts (Update_icon c # es) = restarts es"
  "restarts (status_cmd # es) = restarts es" "restarts (restart_cmd # es) = Suc (restarts es)"
  by (simp_all add: restarts_def restart_cmd_def status_cmd_def)

lemma slept_single:
  "slept (status_cmd # es) = slept es" "slept (restart_cmd # es) = slept es"
  by (simp_all add: restart_cmd_def status_cmd_def)

lemma check_restarts: "restarts (trace (snd (check_tunnel_status pe s))) = restarts (trace s)"
  using check_trace [of pe s] by (auto simp: restarts_append restarts_def status_cmd_def restart_cmd_def)

lemma restart_restarts:
  "restarts (trace (snd (restart_tunnel r pe s))) = restarts (trace s) + 1"
  by (simp add: restart_tunnel_def Let_def io_trace restarts_append restarts_single check_restarts
      split: proc.splits)

lemma restart_slept:
  "slept (trace (snd (restart_tunnel r pe s))) =
     slept (trace s) + (case r of Raised e \<Rightarrow> 0 | Completed rc out err \<Rightarrow> if rc = 0 then 5 else 0)"
  by (simp add: restart_tunnel_def Let_def io_trace slept_append slept_single check_slept
      split: proc.splits)

lemma tick_disconnected_eq:
  assumes "\<not> reports_connected (probe env)"
  shows "tick env (s, rc) =
     (let u = update_icon (render env) Red (snd (check_tunnel_status (probe env) s)) in
      case fst u of
        Some e \<Rightarrow>
          (sleep CHECK_INTERVAL (logging ERROR [Text ''Error in monitoring loop: '', Fmt_exn e] (snd u)), rc)
      | None \<Rightarrow>
          if rc < MAX_RETRIES then
            (let r = restart_tunnel (restart env) (reprobe env)
                       (logging WARNING
                          [Text ''Tunnel disconnected. Attempting restart (attempt '',
                           Fmt_int (rc + 1), Text ''/'', Fmt_int MAX_RETRIES, Text '')''] (snd u))
             in if recovers (restart env) (reprobe env)
                then (sleep CHECK_INTERVAL (logging INFO [Text ''Tunnel successfully restarted''] (snd r)), 0)
                else (sleep CHECK_INTERVAL (sleep RETRY_DELAY (snd r)), rc + 1))
          else
            (sleep CHECK_INTERVAL
               (sleep CHECK_INTERVAL
                  (logging ERROR
                     [Text ''Failed to restart tunnel after '', Fmt_int MAX_RETRIES,
                      Text '' attempts''] (snd u))), rc))"
  using assms
  by (simp add: tick_def tick_try_def case_prod_beta Let_def check_fst restart_fst
      split: option.splits prod.splits)

lemma tick_count:
  "snd (tick env (s, rc)) =
     (if reports_connected (probe env) then 0
      else if icon_raises env s then rc
      else if rc < MAX_RETRIES then (if recovers (restart env) (reprobe env) then 0 else rc + 1)
      else rc)"
  by (cases "reports_connected (probe env)")
     (auto simp add: tick_connected_eq tick_disconnected_eq Let_def update_icon_fst check_frame
      icon_raises_def split: option.splits)

lemma tick_restarts:
  "restarts (trace (fst (tick env (s, rc)))) =
     restarts (trace s) +
     (if \<not> reports_connected (probe env) \<and> \<not> icon_raises env s \<and> rc < MAX_RETRIES then 1 else 0)"
  by (cases "reports_connected (probe env)")
     (auto simp add: tick_connected_eq tick_disconnected_eq Let_def update_icon_fst check_frame
      icon_raises_def update_icon_frame io_trace restarts_append restarts_single restart_restarts
      check_restarts split: option.splits)

lemma tick_slept:
  "slept (trace (fst (tick env (s, rc)))) =
     slept (trace s) +
     (if reports_connected (probe env) \<or> icon_raises env s then CHECK_INTERVAL
      else if rc < MAX_RETRIES then
        (case restart env of Raised e \<Rightarrow> 0 | Completed c out err \<Rightarrow> if c = 0 then 5 else 0)
        + (if recovers (restart env) (reprobe env) then 0 else RETRY_DELAY) + CHECK_INTERVAL
      else CHECK_INTERVAL + CHECK_INTERVAL)"
  by (cases "reports_connected (probe env)")
     (auto simp add: tick_connected_eq tick_disconnected_eq Let_def update_icon_fst check_frame
      icon_raises_def update_icon_frame io_trace slept_append slept_single restart_slept check_slept
      split: option.splits proc.splits)

lemma tick_frame:
  "is_running (fst (tick env (s, rc))) = is_running s"
  "(icon (fst (tick env (s, rc))) = None) = (icon s = None)"
  by (cases "reports_connected (probe env)";
      simp add: tick_connected_eq tick_disconnected_eq Let_def update_icon_fst check_frame
      update_icon_frame update_icon_icon io_frame restart_frame
      split: option.splits)+

lemma timeout_probe_disconnected: "\<not> reports_connected timeout_probe"
  by (simp add: reports_connected_def probe_outcome_def timeout_probe_def)

lemma connected_probe_connected: "reports_connected connected_probe"
  by (simp add: reports_connected_def probe_outcome_def connected_probe_def)

lemma failing_tick_simps:
  "\<not> reports_connected (probe failing_tick)"
  "\<not> recovers (restart failing_tick) (reprobe failing_tick)"
  "\<not> icon_raises failing_tick s"
  by (simp_all add: failing_tick_def timeout_probe_disconnected recovers_def icon_raises_def)

text \<open>
  Claim C1 as written fails: with the counter at 3 and a probe that times out, the
  iteration sleeps 60 time units before the next probe, not one CHECK_INTERVAL.
\<close>

theorem exhausted_tick_one_interval_counterexample:
  "\<not> reports_connected (probe failing_tick) \<and> \<not> 3 < MAX_RETRIES
   \<and> slept (trace (fst (tick failing_tick (running_monitor, 3))))
       = slept (trace running_monitor) + 60
   \<and> slept (trace (fst (tick failing_tick (running_monitor, 3))))
       \<noteq> slept (trace running_monitor) + CHECK_INTERVAL"
  by (simp add: tick_slept failing_tick_simps MAX_RETRIES_def CHECK_INTERVAL_def)

text \<open>
  Claim C1, amended: on an iteration that takes the exhausted branch (the probe finds the
  tunnel disconnected, the retry counter has reached MAX_RETRIES and the icon update does
  not raise), the time slept before the next probe is two CHECK_INTERVALs (60 time units):
  the sleep of the branch and the sleep that ends every iteration. No restart command is
  issued and the counter is unchanged.
\<close>

theorem exhausted_tick_sleeps_two_intervals:
  assumes "\<not> reports_connected (probe env)" and "MAX_RETRIES \<le> retry_count"
    and "\<not> icon_raises env s"
  shows "slept (trace (fst (tick env (s, retry_count)))) = slept (trace s) + 2 * CHECK_INTERVAL
       \<and> restarts (trace (fst (tick env (s, retry_count)))) = restarts (trace s)
       \<and> snd (tick env (s, retry_count)) = retry_count"
  using assms by (simp add: tick_slept tick_restarts tick_count)

theorem exhausted_tick_sleeps_two_intervals_witness:
  "\<not> reports_connected (probe failing_tick) \<and> MAX_RETRIES \<le> 3
   \<and> \<not> icon_raises failing_tick running_monitor
   \<and> slept (trace (fst (tick failing_tick (running_monitor, 3)))) = 60"
  using exhausted_tick_sleeps_two_intervals [of failing_tick 3 running_monitor]
  by (simp add: failing_tick_simps MAX_RETRIES_def CHECK_INTERVAL_def running_monitor_def
      init_monitor_def)

lemma on_restart_frame: "is_running (on_restart r pe s) = is_running s"
  by (simp add: on_restart_def Let_def case_prod_beta io_frame restart_frame)

lemma on_check_now_frame: "is_running (on_check_now pe s) = is_running s"
  by (simp add: on_check_now_def io_frame check_frame)

text \<open>
  Claim C2 as written fails: a manual restart whose recovery reports success leaves a
  retry counter of 3 at 3.
\<close>

theorem manual_restart_resets_counter_counterexample:
  "recovers (Completed 0 [] []) connected_probe
   \<and> snd (snd (monitoring_loop [Restart (Completed 0 [] []) connected_probe]
                 (running_monitor, 3))) = 3"
  by (simp add: recovers_def connected_probe_connected)

lemma monitoring_loop_Nil: "monitoring_loop [] st = (Looping, st)"
  by (cases st) simp

text \<open>
  Claim C2, amended: a manual restart trigger leaves the retry counter of the loop as it
  is, whatever its recovery attempt reports; the counter is a local variable of the loop.
  It goes back to 0 at the next iteration of the loop whose probe reports connected.
\<close>

theorem manual_restart_keeps_counter:
  "snd (snd (monitoring_loop [Restart r pe] (s, retry_count))) = retry_count
   \<and> (is_running s \<and> reports_connected (probe env) \<longrightarrow>
        snd (snd (monitoring_loop [Restart r pe, Tick env] (s, retry_count))) = 0)"
  by (simp add: on_restart_frame tick_count monitoring_loop_Nil del: monitoring_loop.simps(1))

theorem manual_restart_keeps_counter_witness:
  "is_running running_monitor \<and> reports_connected (probe healthy_tick)
   \<and> snd (snd (monitoring_loop [Restart (Completed 0 [] []) connected_probe]
                 (running_monitor, 3))) = 3
   \<and> snd (snd (monitoring_loop [Restart (Completed 0 [] []) connected_probe,
                                  Tick healthy_tick] (running_monitor, 3))) = 0"
proof -
  have h: "is_running running_monitor" "reports_connected (probe healthy_tick)"
    by (simp_all add: running_monitor_def healthy_tick_def connected_probe_connected)
  show ?thesis
    using h manual_restart_keeps_counter [of "Completed 0 [] []" connected_probe running_monitor 3
        healthy_tick]
    by blast
qed

lemma ticks_Cons:
  "ticks (env # envs) (s, rc) = ticks envs (fst (tick env (s, rc)), snd (tick env (s, rc)))"
  by simp

lemma tick_count_range:
  assumes "0 \<le> rc" and "rc \<le> MAX_RETRIES"
  shows "0 \<le> snd (tick env (s, rc)) \<and> snd (tick env (s, rc)) \<le> MAX_RETRIES"
  using assms by (simp add: tick_count MAX_RETRIES_def)

lemma ticks_range:
  "0 \<le> rc \<Longrightarrow> rc \<le> MAX_RETRIES \<Longrightarrow>
   0 \<le> snd (ticks envs (s, rc)) \<and> snd (ticks envs (s, rc)) \<le> MAX_RETRIES"
proof (induction envs arbitrary: s rc)
  case Nil
  then show ?case by simp
next
  case (Cons env envs)
  have "0 \<le> snd (tick env (s, rc)) \<and> snd (tick env (s, rc)) \<le> MAX_RETRIES"
    using Cons.prems by (rule tick_count_range)
  then show ?case
    using Cons.IH [of "snd (tick env (s, rc))" "fst (tick env (s, rc))"] by simp
qed

lemma loop_range:
  "0 \<le> rc \<Longrightarrow> rc \<le> MAX_RETRIES \<Longrightarrow>
   0 \<le> snd (snd (monitoring_loop acts (s, rc)))
   \<and> snd (snd (monitoring_loop acts (s, rc))) \<le> MAX_RETRIES"
proof (induction acts "(s, rc)" arbitrary: s rc rule: monitoring_loop.induct)
  case (2 env acts s retry_count)
  have "0 \<le> snd (tick env (s, retry_count)) \<and> snd (tick env (s, retry_count)) \<le> MAX_RETRIES"
    using "2.prems" by (rule tick_count_range)
  then show ?case
    using "2.hyps" [of "fst (tick env (s, retry_count))" "snd (tick env (s, retry_count))"] "2.prems"
    by simp
qed simp_all

text \<open>
  Claim C3: along every schedule of iterations and menu actions, and along every sequence
  of iterations, started with the counter at 0, the retry counter stays between 0 and
  MAX_RETRIES. An iteration leaves it unchanged, adds one or sets it to 0; it adds one
  only when the counter is strictly below MAX_RETRIES, and it sets a positive counter to 0
  only when the probe reports connected or the recovery succeeds.
\<close>

theorem retry_count_in_range:
  "0 \<le> snd (snd (monitoring_loop acts (s, 0)))
   \<and> snd (snd (monitoring_loop acts (s, 0))) \<le> MAX_RETRIES
   \<and> 0 \<le> snd (ticks envs (s, 0)) \<and> snd (ticks envs (s, 0)) \<le> MAX_RETRIES
   \<and> (snd (tick env (s', rc)) = rc \<or> snd (tick env (s', rc)) = rc + 1 \<or> snd (tick env (s', rc)) = 0)
   \<and> (0 \<le> rc \<and> snd (tick env (s', rc)) = rc + 1 \<longrightarrow> rc < MAX_RETRIES)
   \<and> (0 < rc \<and> snd (tick env (s', rc)) = 0 \<longrightarrow>
        reports_connected (probe env) \<or> recovers (restart env) (reprobe env))"
proof -
  have "0 \<le> snd (snd (monitoring_loop acts (s, 0)))
      \<and> snd (snd (monitoring_loop acts (s, 0))) \<le> MAX_RETRIES"
    by (rule loop_range) (simp_all add: MAX_RETRIES_def)
  moreover have "0 \<le> snd (ticks envs (s, 0)) \<and> snd (ticks envs (s, 0)) \<le> MAX_RETRIES"
    by (rule ticks_range) (simp_all add: MAX_RETRIES_def)
  moreover have "snd (tick env (s', rc)) = rc \<or> snd (tick env (s', rc)) = rc + 1
      \<or> snd (tick env (s', rc)) = 0"
    by (simp add: tick_count)
  moreover have "0 \<le> rc \<and> snd (tick env (s', rc)) = rc + 1 \<longrightarrow> rc < MAX_RETRIES"
    by (simp add: tick_count)
  moreover have "0 < rc \<and> snd (tick env (s', rc)) = 0 \<longrightarrow>
        reports_connected (probe env) \<or> recovers (restart env) (reprobe env)"
    by (auto simp add: tick_count split: if_splits)
  ultimately show ?thesis by blast
qed

theorem retry_count_in_range_witness:
  "0 \<le> snd (snd (monitoring_loop [Tick failing_tick, Tick failing_tick, Tick failing_tick,
                             Tick failing_tick, Tick failing_tick] (running_monitor, 0)))
   \<and> snd (snd (monitoring_loop [Tick failing_tick, Tick failing_tick, Tick failing_tick,
                             Tick failing_tick, Tick failing_tick] (running_monitor, 0))) \<le> MAX_RETRIES
   \<and> snd (tick failing_tick (running_monitor, 2)) = 2 + 1 \<and> (2::int) < MAX_RETRIES
   \<and> snd (tick healthy_tick (running_monitor, 2)) = 0
   \<and> (reports_connected (probe healthy_tick)
        \<or> recovers (restart healthy_tick) (reprobe healthy_tick))"
proof -
  note w1 = retry_count_in_range [of "[Tick failing_tick, Tick failing_tick, Tick failing_tick,
                             Tick failing_tick, Tick failing_tick]" running_monitor "[]"
          failing_tick running_monitor 2]
  note w2 = retry_count_in_range [of "[]" running_monitor "[]" healthy_tick running_monitor 2]
  have a: "snd (tick failing_tick (running_monitor, 2)) = 2 + 1"
    by (simp add: tick_count failing_tick_simps MAX_RETRIES_def)
  have b: "snd (tick healthy_tick (running_monitor, 2)) = 0"
    by (simp add: tick_count healthy_tick_def connected_probe_connected)
  have c: "(2::int) < MAX_RETRIES"
    using w1 a by simp
  have d: "reports_connected (probe healthy_tick)
        \<or> recovers (restart healthy_tick) (reprobe healthy_tick)"
    using w2 b by simp
  show ?thesis
    using w1 a b c d by simp
qed

lemma ticks_append: "ticks (xs @ ys) st = ticks ys (ticks xs st)"
  by (induction xs arbitrary: st) simp_all

lemma icon_raises_cong: "(icon s' = None) = (icon s = None) \<Longrightarrow> icon_raises env s' = icon_raises env s"
  by (simp add: icon_raises_def)

lemma ticks_failing:
  "\<forall>e \<in> set envs. \<not> reports_connected (probe e) \<and> \<not> recovers (restart e) (reprobe e)
       \<and> \<not> icon_raises e s \<Longrightarrow>
   rc + int (length envs) \<le> MAX_RETRIES \<Longrightarrow>
   snd (ticks envs (s, rc)) = rc + int (length envs)
   \<and> restarts (trace (fst (ticks envs (s, rc)))) = restarts (trace s) + length envs"
proof (induction envs arbitrary: s rc)
  case Nil
  then show ?case by simp
next
  case (Cons env envs)
  let ?s = "fst (tick env (s, rc))"
  have here: "\<not> reports_connected (probe env)" "\<not> recovers (restart env) (reprobe env)"
    "\<not> icon_raises env s"
    using Cons.prems(1) by simp_all
  have below: "rc < MAX_RETRIES"
    using Cons.prems(2) by simp
  have step: "snd (tick env (s, rc)) = rc + 1" "restarts (trace ?s) = restarts (trace s) + 1"
    using here below by (simp_all add: tick_count tick_restarts)
  have rest: "\<forall>e \<in> set envs. \<not> reports_connected (probe e)
       \<and> \<not> recovers (restart e) (reprobe e) \<and> \<not> icon_raises e ?s"
  proof
    fix e assume "e \<in> set envs"
    then have "\<not> reports_connected (probe e) \<and> \<not> recovers (restart e) (reprobe e)
        \<and> \<not> icon_raises e s"
      using Cons.prems(1) by simp
    moreover have "icon_raises e ?s = icon_raises e s"
      by (rule icon_raises_cong) (rule tick_frame(2))
    ultimately show "\<not> reports_connected (probe e) \<and> \<not> recovers (restart e) (reprobe e)
        \<and> \<not> icon_raises e ?s"
      by simp
  qed
  have bound: "(rc + 1) + int (length envs) \<le> MAX_RETRIES"
    using Cons.prems(2) by simp
  have "snd (ticks envs (?s, rc + 1)) = rc + 1 + int (length envs)
      \<and> restarts (trace (fst (ticks envs (?s, rc + 1)))) = restarts (trace ?s) + length envs"
    using rest bound by (rule Cons.IH)
  then show ?case
    using step by (simp add: ticks_Cons del: ticks.simps)
qed

lemma ticks_exhausted:
  "\<forall>e \<in> set envs. \<not> reports_connected (probe e) \<Longrightarrow> MAX_RETRIES \<le> rc \<Longrightarrow>
   snd (ticks envs (s, rc)) = rc
   \<and> restarts (trace (fst (ticks envs (s, rc)))) = restarts (trace s)"
proof (induction envs arbitrary: s)
  case Nil
  then show ?case by simp
next
  case (Cons env envs)
  let ?s = "fst (tick env (s, rc))"
  have here: "\<not> reports_connected (probe env)"
    using Cons.prems(1) by simp
  have step: "snd (tick env (s, rc)) = rc" "restarts (trace ?s) = restarts (trace s)"
    using here Cons.prems(2) by (simp_all add: tick_count tick_restarts)
  have rest: "\<forall>e \<in> set envs. \<not> reports_connected (probe e)"
    using Cons.prems(1) by simp
  have "snd (ticks envs (?s, rc)) = rc
      \<and> restarts (trace (fst (ticks envs (?s, rc)))) = restarts (trace ?s)"
    using rest Cons.prems(2) by (rule Cons.IH)
  then show ?case
    using step by (simp add: ticks_Cons del: ticks.simps)
qed

lemma loop_running:
  "is_running s \<Longrightarrow> Quit \<notin> set acts \<Longrightarrow>
   fst (monitoring_loop acts (s, rc)) = Looping
   \<and> is_running (fst (snd (monitoring_loop acts (s, rc))))"
proof (induction acts "(s, rc)" arbitrary: s rc rule: monitoring_loop.induct)
  case (2 env acts s retry_count)
  have "is_running (fst (tick env (s, retry_count)))"
    using "2.prems"(1) by (simp add: tick_frame)
  then show ?case
    using "2.hyps" [of "fst (tick env (s, retry_count))" "snd (tick env (s, retry_count))"]
      "2.prems" by simp
qed (simp_all add: on_check_now_frame on_restart_frame)

lemma loop_append:
  "fst (monitoring_loop acts (s, rc)) = Looping \<Longrightarrow>
   monitoring_loop (acts @ rest) (s, rc) = monitoring_loop rest (snd (monitoring_loop acts (s, rc)))"
proof (induction acts "(s, rc)" arbitrary: s rc rule: monitoring_loop.induct)
  case (2 env acts s retry_count)
  show ?case
  proof (cases "is_running s")
    case True
    then show ?thesis
      using "2.hyps" [of "fst (tick env (s, retry_count))" "snd (tick env (s, retry_count))"]
        "2.prems" by simp
  next
    case False
    then show ?thesis using "2.prems" by simp
  qed
qed simp_all

lemma loop_Tick:
  "monitoring_loop (Tick env # acts) st =
     (if is_running (fst st) then monitoring_loop acts (tick env st) else (Exited, st))"
  by (cases st) simp





lemma restarts_menu:
  "restarts (Notify m t # es) = restarts es" "restarts (Icon_stop # es) = restarts es"
  by (simp_all add: restarts_def restart_cmd_def)

lemma on_restart_restarts: "restarts (trace (on_restart r pe s)) = restarts (trace s) + 1"
  by (simp add: on_restart_def Let_def case_prod_beta io_trace restarts_append restarts_single
      restarts_menu restart_restarts)

lemma on_check_now_restarts: "restarts (trace (on_check_now pe s)) = restarts (trace s)"
  by (simp add: on_check_now_def io_trace restarts_append restarts_single restarts_menu
      check_restarts)

lemma loop_ticks:
  "is_running s \<Longrightarrow> monitoring_loop (map Tick envs) (s, rc) = (Looping, ticks envs (s, rc))"
proof (induction envs arbitrary: s rc)
  case Nil
  then show ?case by simp
next
  case (Cons env envs)
  have "is_running (fst (tick env (s, rc)))"
    using Cons.prems by (simp add: tick_frame)
  then have "monitoring_loop (map Tick envs) (fst (tick env (s, rc)), snd (tick env (s, rc)))
      = (Looping, ticks envs (fst (tick env (s, rc)), snd (tick env (s, rc))))"
    by (rule Cons.IH)
  then show ?case
    using Cons.prems by simp
qed

lemma ticks_running: "is_running (fst (ticks envs (s, rc))) = is_running s"
proof (induction envs arbitrary: s rc)
  case Nil
  then show ?case by simp
next
  case (Cons env envs)
  show ?case
    using Cons.IH [of "fst (tick env (s, rc))" "snd (tick env (s, rc))"]
    by (simp add: tick_frame)
qed

lemma loop_exhausted:
  "\<forall>env. Tick env \<in> set acts \<longrightarrow> \<not> reports_connected (probe env) \<Longrightarrow>
   MAX_RETRIES \<le> rc \<Longrightarrow> is_running s \<Longrightarrow> Quit \<notin> set acts \<Longrightarrow>
   snd (snd (monitoring_loop acts (s, rc))) = rc
   \<and> restarts (trace (fst (snd (monitoring_loop acts (s, rc)))))
       = restarts (trace s) + manual_restarts acts"
proof (induction acts "(s, rc)" arbitrary: s rule: monitoring_loop.induct)
  case (1 s)
  then show ?case by simp
next
  case (2 env acts s)
  let ?s = "fst (tick env (s, rc))"
  have here: "\<not> reports_connected (probe env)"
    using "2.prems"(1) by simp
  have step: "snd (tick env (s, rc)) = rc" "restarts (trace ?s) = restarts (trace s)"
    "is_running ?s"
    using here "2.prems"(2,3) by (simp_all add: tick_count tick_restarts tick_frame)
  have "snd (snd (monitoring_loop acts (?s, rc))) = rc
      \<and> restarts (trace (fst (snd (monitoring_loop acts (?s, rc)))))
          = restarts (trace ?s) + manual_restarts acts"
    using "2.prems" step by (intro "2.hyps") (simp_all add: prod_eq_iff)
  moreover have "monitoring_loop acts (tick env (s, rc)) = monitoring_loop acts (?s, rc)"
    using step(1) by (metis prod.collapse)
  ultimately show ?case
    using step "2.prems"(3) by (simp add: loop_Tick del: monitoring_loop.simps)
next
  case (3 pe acts s)
  have "snd (snd (monitoring_loop acts (on_check_now pe s, rc))) = rc
      \<and> restarts (trace (fst (snd (monitoring_loop acts (on_check_now pe s, rc)))))
          = restarts (trace (on_check_now pe s)) + manual_restarts acts"
    using "3.prems" by (intro "3.hyps") (simp_all add: on_check_now_frame)
  then show ?case
    by (simp add: on_check_now_restarts)
next
  case (4 r pe acts s)
  have "snd (snd (monitoring_loop acts (on_restart r pe s, rc))) = rc
      \<and> restarts (trace (fst (snd (monitoring_loop acts (on_restart r pe s, rc)))))
          = restarts (trace (on_restart r pe s)) + manual_restarts acts"
    using "4.prems" by (intro "4.hyps") (simp_all add: on_restart_frame)
  then show ?case
    by (simp add: on_restart_restarts)
next
  case (5 acts s)
  then show ?case by simp
qed

lemma exhausted_schedule:
  assumes "is_running s" and "int (length envs) = MAX_RETRIES"
    and "\<forall>e \<in> set envs. \<not> reports_connected (probe e) \<and> \<not> recovers (restart e) (reprobe e)
           \<and> \<not> icon_raises e s"
    and "\<forall>env. Tick env \<in> set acts \<longrightarrow> \<not> reports_connected (probe env)"
    and "Quit \<notin> set acts"
  shows "snd (snd (monitoring_loop (map Tick envs @ acts) (s, 0))) = 3
       \<and> restarts (trace (fst (snd (monitoring_loop (map Tick envs @ acts) (s, 0)))))
           = restarts (trace s) + 3 + manual_restarts acts
       \<and> fst (monitoring_loop (map Tick envs @ acts) (s, 0)) = Looping
       \<and> is_running (fst (snd (monitoring_loop (map Tick envs @ acts) (s, 0))))"
proof -
  let ?s = "fst (ticks envs (s, 0))"
  have len: "length envs = 3"
    using assms(2) by (simp add: MAX_RETRIES_def)
  have a: "snd (ticks envs (s, 0)) = 0 + int (length envs)
      \<and> restarts (trace ?s) = restarts (trace s) + length envs"
    using assms(2,3) by (intro ticks_failing) simp_all
  have run: "is_running ?s"
    using assms(1) by (simp add: ticks_running)
  have first: "monitoring_loop (map Tick envs) (s, 0) = (Looping, ?s, 3)"
    using a len assms(1) by (simp add: loop_ticks prod_eq_iff)
  then have split: "monitoring_loop (map Tick envs @ acts) (s, 0) = monitoring_loop acts (?s, 3)"
    by (simp add: loop_append)
  have b: "snd (snd (monitoring_loop acts (?s, 3))) = 3
      \<and> restarts (trace (fst (snd (monitoring_loop acts (?s, 3)))))
          = restarts (trace ?s) + manual_restarts acts"
    using assms(4) _ run assms(5) by (rule loop_exhausted) (simp add: MAX_RETRIES_def)
  have c: "fst (monitoring_loop acts (?s, 3)) = Looping
      \<and> is_running (fst (snd (monitoring_loop acts (?s, 3))))"
    using run assms(5) by (rule loop_running)
  show ?thesis
    using a b c len by (simp add: split)
qed

text \<open>
  Claim C5 as written fails: after three iterations in which probe and recovery fail, a
  manual restart whose recovery reports success intervenes, yet the counter is still 3
  and the next iteration that finds the tunnel disconnected issues no restart command
  (four in all: three by the loop and the manual one).
\<close>

theorem retries_exhausted_until_recovery_counterexample:
  "recovers (Completed 0 [] []) connected_probe
   \<and> snd (snd (monitoring_loop
        [Tick failing_tick, Tick failing_tick, Tick failing_tick,
         Restart (Completed 0 [] []) connected_probe] (running_monitor, 0))) = 3
   \<and> snd (snd (monitoring_loop
        [Tick failing_tick, Tick failing_tick, Tick failing_tick,
         Restart (Completed 0 [] []) connected_probe, Tick failing_tick] (running_monitor, 0))) = 3
   \<and> restarts (trace (fst (snd (monitoring_loop
        [Tick failing_tick, Tick failing_tick, Tick failing_tick,
         Restart (Completed 0 [] []) connected_probe] (running_monitor, 0))))) = 4
   \<and> restarts (trace (fst (snd (monitoring_loop
        [Tick failing_tick, Tick failing_tick, Tick failing_tick,
         Restart (Completed 0 [] []) connected_probe, Tick failing_tick] (running_monitor, 0))))) = 4"
proof -
  have r: "is_running running_monitor" "restarts (trace running_monitor) = 0"
    by (simp_all add: running_monitor_def init_monitor_def restarts_def)
  have l: "int (length [failing_tick, failing_tick, failing_tick]) = MAX_RETRIES"
    by (simp add: MAX_RETRIES_def)
  have f: "\<forall>e \<in> set [failing_tick, failing_tick, failing_tick].
         \<not> reports_connected (probe e) \<and> \<not> recovers (restart e) (reprobe e)
         \<and> \<not> icon_raises e running_monitor"
    by (simp add: failing_tick_simps)
  note a = exhausted_schedule [OF r(1) l f,
      of "[Restart (Completed 0 [] []) connected_probe]"]
  note b = exhausted_schedule [OF r(1) l f,
      of "[Restart (Completed 0 [] []) connected_probe, Tick failing_tick]"]
  have ok: "recovers (Completed 0 [] []) connected_probe"
    by (simp add: recovers_def connected_probe_connected)
  show ?thesis
    using a b r(2) ok by (simp add: failing_tick_simps)
qed

text \<open>
  Claim C5, amended: after MAX_RETRIES consecutive iterations in which probe and recovery
  both fail, starting with the counter at 0, the counter is 3 and three restart commands
  have been issued. Over any further schedule of iterations whose probes all find the
  tunnel disconnected and of manual checks and restarts, successful or not, the counter
  stays 3 and the loop issues no restart command: the only restart commands are the
  manual ones. This lasts until an iteration whose own probe reports connected, which
  sets the counter to 0.
\<close>

theorem retries_exhausted_persist:
  assumes "is_running s" and "int (length envs) = MAX_RETRIES"
    and "\<forall>e \<in> set envs. \<not> reports_connected (probe e) \<and> \<not> recovers (restart e) (reprobe e)
           \<and> \<not> icon_raises e s"
    and "\<forall>env. Tick env \<in> set acts \<longrightarrow> \<not> reports_connected (probe env)"
    and "Quit \<notin> set acts"
  shows "snd (snd (monitoring_loop (map Tick envs) (s, 0))) = 3
       \<and> restarts (trace (fst (snd (monitoring_loop (map Tick envs) (s, 0)))))
           = restarts (trace s) + 3
       \<and> snd (snd (monitoring_loop (map Tick envs @ acts) (s, 0))) = 3
       \<and> restarts (trace (fst (snd (monitoring_loop (map Tick envs @ acts) (s, 0)))))
           = restarts (trace s) + 3 + manual_restarts acts
       \<and> (reports_connected (probe env) \<longrightarrow>
            snd (snd (monitoring_loop (map Tick envs @ acts @ [Tick env]) (s, 0))) = 0)"
proof -
  have none: "\<forall>env. Tick env \<in> set [] \<longrightarrow> \<not> reports_connected (probe env)" "Quit \<notin> set []"
    by simp_all
  note a = exhausted_schedule [OF assms(1,2,3) none]
  note b = exhausted_schedule [OF assms]
  have "monitoring_loop ((map Tick envs @ acts) @ [Tick env]) (s, 0)
      = monitoring_loop [Tick env] (snd (monitoring_loop (map Tick envs @ acts) (s, 0)))"
    using b by (intro loop_append) simp
  then have c: "snd (snd (monitoring_loop (map Tick envs @ acts @ [Tick env]) (s, 0)))
      = snd (tick env (snd (monitoring_loop (map Tick envs @ acts) (s, 0))))"
    using b by (simp add: loop_Tick monitoring_loop_Nil)
  have d: "snd (tick env (snd (monitoring_loop (map Tick envs @ acts) (s, 0)))) = 0"
    if "reports_connected (probe env)"
    using that tick_count [of env "fst (snd (monitoring_loop (map Tick envs @ acts) (s, 0)))"
        "snd (snd (monitoring_loop (map Tick envs @ acts) (s, 0)))"]
    by simp
  show ?thesis
    using a b c d by simp
qed

theorem retries_exhausted_persist_witness:
  "is_running running_monitor
   \<and> int (length [failing_tick, failing_tick, failing_tick]) = MAX_RETRIES
   \<and> \<not> reports_connected (probe failing_tick)
   \<and> \<not> recovers (restart failing_tick) (reprobe failing_tick)
   \<and> \<not> icon_raises failing_tick running_monitor
   \<and> reports_connected (probe healthy_tick)
   \<and> snd (snd (monitoring_loop
        (map Tick [failing_tick, failing_tick, failing_tick]
         @ [Tick failing_tick, Restart (Completed 0 [] []) connected_probe, Tick failing_tick])
        (running_monitor, 0))) = 3
   \<and> restarts (trace (fst (snd (monitoring_loop
        (map Tick [failing_tick, failing_tick, failing_tick]
         @ [Tick failing_tick, Restart (Completed 0 [] []) connected_probe, Tick failing_tick])
        (running_monitor, 0))))) = 4
   \<and> snd (snd (monitoring_loop
        (map Tick [failing_tick, failing_tick, failing_tick]
         @ [Tick failing_tick, Restart (Completed 0 [] []) connected_probe, Tick failing_tick]
         @ [Tick healthy_tick])
        (running_monitor, 0))) = 0"
proof -
  have r: "is_running running_monitor" "restarts (trace running_monitor) = 0"
    by (simp_all add: running_monitor_def init_monitor_def restarts_def)
  have l: "int (length [failing_tick, failing_tick, failing_tick]) = MAX_RETRIES"
    by (simp add: MAX_RETRIES_def)
  have f: "\<forall>e \<in> set [failing_tick, failing_tick, failing_tick].
         \<not> reports_connected (probe e) \<and> \<not> recovers (restart e) (reprobe e)
         \<and> \<not> icon_raises e running_monitor"
    by (simp add: failing_tick_simps)
  have d: "\<forall>env. Tick env \<in> set [Tick failing_tick, Restart (Completed 0 [] []) connected_probe,
                                  Tick failing_tick] \<longrightarrow> \<not> reports_connected (probe env)"
    by (simp add: failing_tick_simps)
  have q: "Quit \<notin> set [Tick failing_tick, Restart (Completed 0 [] []) connected_probe,
                       Tick failing_tick]"
    by simp
  have h: "reports_connected (probe healthy_tick)"
    by (simp add: healthy_tick_def connected_probe_connected)
  note w = retries_exhausted_persist [OF r(1) l f d q, of healthy_tick]
  show ?thesis
    using w r l h by (simp add: failing_tick_simps)
qed

lemma events_since_append: "trace s' = trace s @ es \<Longrightarrow> events_since s s' = es"
  by (simp add: events_since_def)

lemma probes_append: "probes (xs @ ys) = probes xs + probes ys"
  by (induction xs) (simp_all add: probes_def)

lemma probes_single:
  "probes [] = 0"
  "probes (Log l m # es) = probes es" "probes (Sleep n # es) = probes es"
  "probes (Update_icon c # es) = probes es"
  "probes (status_cmd # es) = Suc (probes es)" "probes (restart_cmd # es) = probes es"
  by (simp_all add: probes_def restart_cmd_def status_cmd_def)

text \<open>
  Claim C6: when the restart command raises or exits with a non-zero code,
  \<^verbatim>\<open>restart_tunnel\<close> returns False after logging the error, without sleeping and
  without a probe. When the command exits with 0 it sleeps 5 time units, probes once and
  returns what the probe returns, which is False when the probe fails.
\<close>

theorem restart_tunnel_outcomes:
  "(r = Raised e \<or> (r = Completed rc out err \<and> rc \<noteq> 0) \<longrightarrow>
      \<not> fst (restart_tunnel r pe s)
      \<and> (\<exists>m. events_since s (snd (restart_tunnel r pe s)) =
             [Log INFO [Text ''Attempting to restart tunnel...''], restart_cmd, Log ERROR m])
      \<and> probes (trace (snd (restart_tunnel r pe s))) = probes (trace s)
      \<and> slept (trace (snd (restart_tunnel r pe s))) = slept (trace s))
   \<and> fst (restart_tunnel (Completed 0 out err) pe s) = reports_connected pe
   \<and> (\<exists>l m. events_since s (snd (restart_tunnel (Completed 0 out err) pe s)) =
          [Log INFO [Text ''Attempting to restart tunnel...''], restart_cmd,
           Log INFO [Text ''Tunnel service restart command executed''], Sleep 5,
           status_cmd, Log l m])
   \<and> probes (trace (snd (restart_tunnel (Completed 0 out err) pe s))) = probes (trace s) + 1
   \<and> ((\<forall>c n. probe_outcome pe \<noteq> Observed c n) \<longrightarrow>
         \<not> fst (restart_tunnel (Completed 0 out err) pe s))"
proof -
  let ?s0 = "sleep 5 (logging INFO [Text ''Tunnel service restart command executed'']
          (emit restart_cmd (logging INFO [Text ''Attempting to restart tunnel...''] s)))"
  obtain l m where tr: "trace (snd (check_tunnel_status pe ?s0)) = trace ?s0 @ [status_cmd, Log l m]"
    using check_trace by blast
  have ok: "snd (restart_tunnel (Completed 0 out err) pe s) = snd (check_tunnel_status pe ?s0)"
    by (simp add: restart_tunnel_def)
  have a: "\<not> fst (restart_tunnel r pe s)
      \<and> (\<exists>m. events_since s (snd (restart_tunnel r pe s)) =
             [Log INFO [Text ''Attempting to restart tunnel...''], restart_cmd, Log ERROR m])
      \<and> probes (trace (snd (restart_tunnel r pe s))) = probes (trace s)
      \<and> slept (trace (snd (restart_tunnel r pe s))) = slept (trace s)"
    if "r = Raised e \<or> (r = Completed rc out err \<and> rc \<noteq> 0)"
    using that
    by (auto simp add: restart_tunnel_def io_trace events_since_def probes_append probes_single
        slept_append slept_single)
  have b: "fst (restart_tunnel (Completed 0 out err) pe s) = reports_connected pe"
    by (simp add: restart_fst recovers_def)
  have c: "events_since s (snd (restart_tunnel (Completed 0 out err) pe s)) =
          [Log INFO [Text ''Attempting to restart tunnel...''], restart_cmd,
           Log INFO [Text ''Tunnel service restart command executed''], Sleep 5,
           status_cmd, Log l m]"
    unfolding ok by (rule events_since_append) (simp add: tr io_trace)
  have d: "probes (trace (snd (restart_tunnel (Completed 0 out err) pe s))) = probes (trace s) + 1"
    unfolding ok by (simp add: tr io_trace probes_append probes_single)
  have e: "\<not> fst (restart_tunnel (Completed 0 out err) pe s)"
    if "\<forall>c n. probe_outcome pe \<noteq> Observed c n"
    using that unfolding b by (simp add: reports_connected_def split: outcome.splits)
  show ?thesis
    using a b c d e by blast
qed

theorem restart_tunnel_outcomes_witness:
  "(Completed 1 [] ''access denied'' = Completed 1 [] ''access denied'' \<and> (1::int) \<noteq> 0)
   \<and> \<not> fst (restart_tunnel (Completed 1 [] ''access denied'') connected_probe running_monitor)
   \<and> probes (trace (snd (restart_tunnel (Completed 1 [] ''access denied'') connected_probe
                            running_monitor))) = 0
   \<and> fst (restart_tunnel (Completed 0 [] ''access denied'') connected_probe running_monitor)
   \<and> (\<forall>c n. probe_outcome timeout_probe \<noteq> Observed c n)
   \<and> \<not> fst (restart_tunnel (Completed 0 [] []) timeout_probe running_monitor)"
proof -
  have h: "\<forall>c n. probe_outcome timeout_probe \<noteq> Observed c n"
    by (simp add: probe_outcome_def timeout_probe_def)
  have p: "probes (trace running_monitor) = 0"
    by (simp add: running_monitor_def init_monitor_def probes_def)
  note w1 = restart_tunnel_outcomes [of "Completed 1 [] ''access denied''" "Fault []" 1 "[]"
        "''access denied''" connected_probe running_monitor]
  note w2 = restart_tunnel_outcomes [of "Completed 1 [] ''access denied''" "Fault []" 1 "[]"
        "[]" timeout_probe running_monitor]
  have a: "\<not> fst (restart_tunnel (Completed 1 [] ''access denied'') connected_probe running_monitor)
      \<and> probes (trace (snd (restart_tunnel (Completed 1 [] ''access denied'') connected_probe
                            running_monitor))) = 0"
    using w1 p by simp
  have b: "fst (restart_tunnel (Completed 0 [] ''access denied'') connected_probe running_monitor)"
    using w1 connected_probe_connected by simp
  have c: "\<not> fst (restart_tunnel (Completed 0 [] []) timeout_probe running_monitor)"
    using w2 h by blast
  show ?thesis
    using a b c h by simp
qed

text \<open>
  Claim C7: when the status command raises (a timeout or any other fault), exits with a
  non-zero code, or prints what \<^verbatim>\<open>json.loads\<close> rejects, the probe returns False,
  the object is disconnected, the stored tunnel name is unchanged and one error line is
  logged. The probe returns a value in each case: nothing is raised to the caller.
\<close>

theorem probe_failure_degrades:
  assumes "(\<exists>e. p_run pe = Raised e)
     \<or> (\<exists>rc out err. p_run pe = Completed rc out err \<and> (rc \<noteq> 0 \<or> (\<exists>x. p_loads pe = Inl x)))"
  shows "\<not> fst (check_tunnel_status pe s)
       \<and> \<not> tunnel_connected (snd (check_tunnel_status pe s))
       \<and> tunnel_name (snd (check_tunnel_status pe s)) = tunnel_name s
       \<and> (\<exists>m. events_since s (snd (check_tunnel_status pe s)) = [status_cmd, Log ERROR m])"
proof -
  have "(\<exists>e. probe_outcome pe = Failed e) \<or> (\<exists>err. probe_outcome pe = Non_zero err)"
  proof (cases "p_run pe")
    case (Raised e)
    then show ?thesis by (simp add: probe_outcome_def)
  next
    case (Completed rc out err)
    then have "rc \<noteq> 0 \<or> (\<exists>x. p_loads pe = Inl x)"
      using assms by simp
    then show ?thesis
      using Completed by (cases "rc = 0") (auto simp add: probe_outcome_def)
  qed
  then show ?thesis
    by (auto simp add: check_tunnel_status_def Let_def io_defs events_since_def split: exn.splits)
qed

theorem probe_failure_degrades_witness:
  "((\<exists>e. p_run timeout_probe = Raised e)
     \<or> (\<exists>rc out err. p_run timeout_probe = Completed rc out err
           \<and> (rc \<noteq> 0 \<or> (\<exists>x. p_loads timeout_probe = Inl x))))
   \<and> \<not> fst (check_tunnel_status timeout_probe (running_monitor\<lparr>tunnel_name := JStr ''dev-box''\<rparr>))
   \<and> tunnel_name (snd (check_tunnel_status timeout_probe
                          (running_monitor\<lparr>tunnel_name := JStr ''dev-box''\<rparr>))) = JStr ''dev-box''"
proof -
  have h: "(\<exists>e. p_run timeout_probe = Raised e)
     \<or> (\<exists>rc out err. p_run timeout_probe = Completed rc out err
           \<and> (rc \<noteq> 0 \<or> (\<exists>x. p_loads timeout_probe = Inl x)))"
    by (simp add: timeout_probe_def)
  show ?thesis
    using h probe_failure_degrades [OF h, of "running_monitor\<lparr>tunnel_name := JStr ''dev-box''\<rparr>"]
    by simp
qed

lemma py_get_not_dict: "\<not> is_dict j \<Longrightarrow> py_get j k d = Inl AttributeError"
  by (cases j) simp_all

text \<open>
  Claim C8 as written fails: the output \<^verbatim>\<open>{"tunnel": null}\<close> parses and has no
  nested object, yet the stored name stays \<open>dev-box\<close> instead of becoming
  \<open>Unknown\<close>, and the probe logs an error.
\<close>

theorem parseable_output_counterexample:
  "p_run null_tunnel_probe = Completed 0 (''{'' @ dq @ ''tunnel'' @ dq @ '': null}'') []
   \<and> p_loads null_tunnel_probe = Inr (JObj [(''tunnel'', JNull)])
   \<and> tunnel_name (snd (check_tunnel_status null_tunnel_probe named_monitor)) = JStr ''dev-box''
   \<and> tunnel_name (snd (check_tunnel_status null_tunnel_probe named_monitor)) \<noteq> JStr ''Unknown''
   \<and> events_since named_monitor (snd (check_tunnel_status null_tunnel_probe named_monitor))
       = [status_cmd, Log ERROR [Text ''Error checking tunnel status: '', Fmt_exn AttributeError]]"
  by (simp add: null_tunnel_probe_def check_tunnel_status_def probe_outcome_def named_monitor_def
      running_monitor_def init_monitor_def io_defs events_since_def)

lemma probe_outcome_dict:
  assumes "p_run pe = Completed 0 out err" and "p_loads pe = Inr (JObj kvs)"
    and "(map_of kvs ''tunnel'' = None \<and> tvs = []) \<or> map_of kvs ''tunnel'' = Some (JObj tvs)"
  shows "probe_outcome pe =
     Observed (map_of tvs ''tunnel'' = Some (JStr ''Connected''))
              (case map_of tvs ''name'' of None \<Rightarrow> JStr ''Unknown'' | Some n \<Rightarrow> n)"
  using assms by (auto simp add: probe_outcome_def split: option.splits)

lemma probe_outcome_not_dict:
  assumes "p_run pe = Completed 0 out err" and "p_loads pe = Inr j"
    and "\<not> is_dict j \<or> (\<exists>kvs v. j = JObj kvs \<and> map_of kvs ''tunnel'' = Some v \<and> \<not> is_dict v)"
  shows "probe_outcome pe = Failed AttributeError"
  using assms by (auto simp add: probe_outcome_def py_get_not_dict)

text \<open>
  Claim C8, amended: on a zero-exit probe whose output parses to an object in which
  \<open>tunnel\<close> is absent or is itself an object, the connected flag is true if and only if
  the nested \<open>tunnel\<close> field is the string \<open>Connected\<close>, and the name is the nested
  \<open>name\<close> field, or \<open>Unknown\<close> when that field is absent. A parseable output of any
  other shape (not an object, or with a \<open>tunnel\<close> entry that is not an object) is
  handled as an error: the probe returns False, the object is disconnected, the error
  line of the catch-all handler is logged, and the stored name and timestamp are unchanged.
  In the first case the timestamp is the clock reading of the probe and the one line
  logged is an information or a warning, not an error.
\<close>

theorem probe_extracts_status:
  "(p_run pe = Completed 0 out err \<and> p_loads pe = Inr (JObj kvs)
      \<and> ((map_of kvs ''tunnel'' = None \<and> tvs = []) \<or> map_of kvs ''tunnel'' = Some (JObj tvs)) \<longrightarrow>
      fst (check_tunnel_status pe s) = (map_of tvs ''tunnel'' = Some (JStr ''Connected''))
      \<and> tunnel_connected (snd (check_tunnel_status pe s))
          = (map_of tvs ''tunnel'' = Some (JStr ''Connected''))
      \<and> tunnel_name (snd (check_tunnel_status pe s))
          = (case map_of tvs ''name'' of None \<Rightarrow> JStr ''Unknown'' | Some n \<Rightarrow> n)
      \<and> last_check_time (snd (check_tunnel_status pe s)) = Some (p_now pe)
      \<and> (\<exists>m. events_since s (snd (check_tunnel_status pe s)) =
            [status_cmd,
             Log (if map_of tvs ''tunnel'' = Some (JStr ''Connected'') then INFO else WARNING) m]))
   \<and> (p_run pe = Completed 0 out err \<and> p_loads pe = Inr j
      \<and> (\<not> is_dict j \<or> (\<exists>kvs v. j = JObj kvs \<and> map_of kvs ''tunnel'' = Some v \<and> \<not> is_dict v)) \<longrightarrow>
      \<not> fst (check_tunnel_status pe s)
      \<and> \<not> tunnel_connected (snd (check_tunnel_status pe s))
      \<and> tunnel_name (snd (check_tunnel_status pe s)) = tunnel_name s
      \<and> last_check_time (snd (check_tunnel_status pe s)) = last_check_time s
      \<and> events_since s (snd (check_tunnel_status pe s)) =
            [status_cmd,
             Log ERROR [Text ''Error checking tunnel status: '', Fmt_exn AttributeError]])"
proof -
  have a: "fst (check_tunnel_status pe s) = (map_of tvs ''tunnel'' = Some (JStr ''Connected''))
      \<and> tunnel_connected (snd (check_tunnel_status pe s))
          = (map_of tvs ''tunnel'' = Some (JStr ''Connected''))
      \<and> tunnel_name (snd (check_tunnel_status pe s))
          = (case map_of tvs ''name'' of None \<Rightarrow> JStr ''Unknown'' | Some n \<Rightarrow> n)
      \<and> last_check_time (snd (check_tunnel_status pe s)) = Some (p_now pe)
      \<and> (\<exists>m. events_since s (snd (check_tunnel_status pe s)) =
            [status_cmd,
             Log (if map_of tvs ''tunnel'' = Some (JStr ''Connected'') then INFO else WARNING) m])"
    if "p_run pe = Completed 0 out err" "p_loads pe = Inr (JObj kvs)"
      "(map_of kvs ''tunnel'' = None \<and> tvs = []) \<or> map_of kvs ''tunnel'' = Some (JObj tvs)"
    using probe_outcome_dict [OF that]
    by (simp add: check_tunnel_status_def Let_def io_defs events_since_def)
  have b: "\<not> fst (check_tunnel_status pe s)
      \<and> \<not> tunnel_connected (snd (check_tunnel_status pe s))
      \<and> tunnel_name (snd (check_tunnel_status pe s)) = tunnel_name s
      \<and> last_check_time (snd (check_tunnel_status pe s)) = last_check_time s
      \<and> events_since s (snd (check_tunnel_status pe s)) =
            [status_cmd,
             Log ERROR [Text ''Error checking tunnel status: '', Fmt_exn AttributeError]]"
    if "p_run pe = Completed 0 out err" "p_loads pe = Inr j"
      "\<not> is_dict j \<or> (\<exists>kvs v. j = JObj kvs \<and> map_of kvs ''tunnel'' = Some v \<and> \<not> is_dict v)"
    using probe_outcome_not_dict [OF that]
    by (simp add: check_tunnel_status_def Let_def io_defs events_since_def)
  show ?thesis
    using a b by blast
qed

theorem probe_extracts_status_witness:
  "tunnel_connected (snd (check_tunnel_status connected_probe running_monitor))
   \<and> tunnel_name (snd (check_tunnel_status connected_probe running_monitor)) = JStr ''dev-box''
   \<and> \<not> tunnel_connected (snd (check_tunnel_status empty_object_probe named_monitor))
   \<and> tunnel_name (snd (check_tunnel_status empty_object_probe named_monitor)) = JStr ''Unknown''
   \<and> tunnel_name (snd (check_tunnel_status null_tunnel_probe named_monitor)) = tunnel_name named_monitor
   \<and> events_since named_monitor (snd (check_tunnel_status null_tunnel_probe named_monitor)) =
        [status_cmd, Log ERROR [Text ''Error checking tunnel status: '', Fmt_exn AttributeError]]"
proof -
  note w1 = probe_extracts_status [of connected_probe connected_stdout "[]"
      "[(''tunnel'', JObj [(''name'', JStr ''dev-box''), (''tunnel'', JStr ''Connected'')])]"
      "[(''name'', JStr ''dev-box''), (''tunnel'', JStr ''Connected'')]" running_monitor JNull]
  note w2 = probe_extracts_status [of empty_object_probe "''{}''" "[]" "[]" "[]" named_monitor JNull]
  note w3 = probe_extracts_status [of null_tunnel_probe "''{'' @ dq @ ''tunnel'' @ dq @ '': null}''"
      "[]" "[]" "[]" named_monitor "JObj [(''tunnel'', JNull)]"]
  have a: "tunnel_connected (snd (check_tunnel_status connected_probe running_monitor))
      \<and> tunnel_name (snd (check_tunnel_status connected_probe running_monitor)) = JStr ''dev-box''"
    using w1 by (simp add: connected_probe_def)
  have b: "\<not> tunnel_connected (snd (check_tunnel_status empty_object_probe named_monitor))
      \<and> tunnel_name (snd (check_tunnel_status empty_object_probe named_monitor)) = JStr ''Unknown''"
    using w2 by (simp add: empty_object_probe_def)
  have c: "tunnel_name (snd (check_tunnel_status null_tunnel_probe named_monitor))
      = tunnel_name named_monitor
      \<and> events_since named_monitor (snd (check_tunnel_status null_tunnel_probe named_monitor)) =
        [status_cmd, Log ERROR [Text ''Error checking tunnel status: '', Fmt_exn AttributeError]]"
    using w3 by (simp add: null_tunnel_probe_def)
  show ?thesis
    using a b c by simp
qed

lemma check_last_check_time:
  "last_check_time (snd (check_tunnel_status pe s))
     = (if stamps pe then Some (p_now pe) else last_check_time s)"
  by (simp add: check_tunnel_status_def stamps_def Let_def io_defs split: outcome.splits exn.splits)

lemma stamps_parsed:
  "stamps pe \<Longrightarrow> \<exists>out err j. p_run pe = Completed 0 out err \<and> p_loads pe = Inr j"
  by (auto simp add: stamps_def probe_outcome_def split: proc.splits sum.splits if_splits)

lemma failure_not_stamps:
  assumes "(\<exists>e. p_run pe = Raised e)
     \<or> (\<exists>rc out err. p_run pe = Completed rc out err \<and> (rc \<noteq> 0 \<or> (\<exists>x. p_loads pe = Inl x)))"
  shows "\<not> stamps pe"
  using assms stamps_parsed [of pe] by auto

lemma checks_snoc: "checks (pes @ [pe]) s = snd (check_tunnel_status pe (checks pes s))"
  by (induction pes arbitrary: s) simp_all

lemma checks_last_check_time:
  "last_check_time (checks pes s)
     = (if filter stamps pes = [] then last_check_time s
        else Some (p_now (last (filter stamps pes))))"
proof (induction pes rule: rev_induct)
  case Nil
  then show ?case by simp
next
  case (snoc pe pes)
  show ?case
    by (simp add: checks_snoc check_last_check_time snoc.IH)
qed

lemma status_text_time: "(Fmt_time t \<in> set (get_status_text s)) = (last_check_time s = Some t)"
  by (auto simp add: get_status_text_def split: option.splits)

lemma py_get_case:
  "py_get j k d =
     (case j of JObj kvs \<Rightarrow> Inr (case map_of kvs k of None \<Rightarrow> d | Some v \<Rightarrow> v)
      | _ \<Rightarrow> Inl AttributeError)"
  by (cases j) simp_all

lemma is_dict_case: "is_dict j = (case j of JObj kvs \<Rightarrow> True | _ \<Rightarrow> False)"
  by (cases j) simp_all

lemma stamps_iff: "stamps pe = status_shaped pe"
proof (cases "p_run pe")
  case (Raised e)
  then show ?thesis
    by (simp add: stamps_def probe_outcome_def status_shaped_def)
next
  case (Completed rc out err)
  show ?thesis
  proof (cases "p_loads pe")
    case (Inl e)
    then show ?thesis
      using Completed by (simp add: stamps_def probe_outcome_def status_shaped_def)
  next
    case (Inr j)
    then show ?thesis
      using Completed
      by (simp add: stamps_def probe_outcome_def status_shaped_def py_get_case is_dict_case
          split: json.splits option.splits)
  qed
qed

lemma wrong_shape_not_stamps:
  assumes "p_run pe = Completed rc out err" and "p_loads pe = Inr j"
    and "\<not> is_dict j \<or> (\<exists>kvs v. j = JObj kvs \<and> map_of kvs ''tunnel'' = Some v \<and> \<not> is_dict v)"
  shows "\<not> stamps pe"
  using assms by (cases j) (auto simp add: stamps_iff status_shaped_def)

text \<open>
  Claim C10 as written fails at its last clause: after a probe that finds the tunnel
  connected at time 9, a probe at time 11 exits with 0 and prints \<^verbatim>\<open>{"tunnel": null}\<close>,
  which parses; the timestamp stays 9 and the status text shows 9, not the time of the
  most recent probe whose output parsed.
\<close>

theorem last_check_reflects_parsed_counterexample:
  "p_run null_tunnel_probe = Completed 0 (''{'' @ dq @ ''tunnel'' @ dq @ '': null}'') []
   \<and> p_loads null_tunnel_probe = Inr (JObj [(''tunnel'', JNull)])
   \<and> p_now null_tunnel_probe = 11
   \<and> last_check_time (checks [connected_probe, null_tunnel_probe] named_monitor) = Some 9
   \<and> Fmt_time 9 \<in> set (get_status_text (checks [connected_probe, null_tunnel_probe] named_monitor))
   \<and> Fmt_time 11 \<notin> set (get_status_text (checks [connected_probe, null_tunnel_probe] named_monitor))"
proof -
  have st: "stamps connected_probe" "\<not> stamps null_tunnel_probe"
    by (simp_all add: stamps_def probe_outcome_def connected_probe_def null_tunnel_probe_def)
  have now: "p_now connected_probe = 9"
    by (simp add: connected_probe_def)
  have "last_check_time (checks [connected_probe, null_tunnel_probe] named_monitor) = Some 9"
    using checks_last_check_time [of "[connected_probe, null_tunnel_probe]" named_monitor]
    by (simp add: st now)
  then show ?thesis
    by (simp add: status_text_time) (simp add: null_tunnel_probe_def)
qed

text \<open>
  Claim C10, amended: a probe assigns \<^verbatim>\<open>last_check_time\<close>, the clock reading of that
  probe, exactly when the status command exits with 0 and its output parses to an object
  in which \<open>tunnel\<close> is absent or is itself an object; so it changes only when the
  command exits with 0 and the output parses. On every failure kind (the command raises,
  exits with a non-zero code, prints what \<^verbatim>\<open>json.loads\<close> rejects, or prints a
  parseable value of another shape) it is unchanged. After a run of probes the time is
  that of the last probe of the run whose output had the expected shape, or the initial
  one when none had, and the status text shows exactly this time.
\<close>

theorem last_check_time_only_on_success:
  "last_check_time (snd (check_tunnel_status pe s))
     = (if status_shaped pe then Some (p_now pe) else last_check_time s)
   \<and> (last_check_time (snd (check_tunnel_status pe s)) \<noteq> last_check_time s \<longrightarrow>
      (\<exists>out err j. p_run pe = Completed 0 out err \<and> p_loads pe = Inr j)
      \<and> last_check_time (snd (check_tunnel_status pe s)) = Some (p_now pe))
   \<and> ((\<exists>e. p_run pe = Raised e)
        \<or> (\<exists>rc out err. p_run pe = Completed rc out err
              \<and> (rc \<noteq> 0 \<or> (\<exists>x. p_loads pe = Inl x)
                  \<or> (\<exists>j. p_loads pe = Inr j
                        \<and> (\<not> is_dict j
                            \<or> (\<exists>kvs v. j = JObj kvs \<and> map_of kvs ''tunnel'' = Some v
                                  \<and> \<not> is_dict v))))) \<longrightarrow>
      last_check_time (snd (check_tunnel_status pe s)) = last_check_time s)
   \<and> last_check_time (checks pes s)
       = (if filter status_shaped pes = [] then last_check_time s
          else Some (p_now (last (filter status_shaped pes))))
   \<and> (Fmt_time t \<in> set (get_status_text (checks pes s))) = (last_check_time (checks pes s) = Some t)"
proof -
  have eq: "stamps = status_shaped"
    by (rule ext) (rule stamps_iff)
  have z: "last_check_time (snd (check_tunnel_status pe s))
     = (if status_shaped pe then Some (p_now pe) else last_check_time s)"
    by (simp add: check_last_check_time stamps_iff)
  have a: "(\<exists>out err j. p_run pe = Completed 0 out err \<and> p_loads pe = Inr j)
      \<and> last_check_time (snd (check_tunnel_status pe s)) = Some (p_now pe)"
    if "last_check_time (snd (check_tunnel_status pe s)) \<noteq> last_check_time s"
  proof -
    have "stamps pe"
      using that by (simp add: check_last_check_time split: if_splits)
    then show ?thesis
      using stamps_parsed [of pe] by (simp add: check_last_check_time)
  qed
  have b: "last_check_time (snd (check_tunnel_status pe s)) = last_check_time s"
    if "(\<exists>e. p_run pe = Raised e)
        \<or> (\<exists>rc out err. p_run pe = Completed rc out err
              \<and> (rc \<noteq> 0 \<or> (\<exists>x. p_loads pe = Inl x)
                  \<or> (\<exists>j. p_loads pe = Inr j
                        \<and> (\<not> is_dict j
                            \<or> (\<exists>kvs v. j = JObj kvs \<and> map_of kvs ''tunnel'' = Some v
                                  \<and> \<not> is_dict v)))))"
  proof -
    have "\<not> stamps pe"
      using that failure_not_stamps [of pe] wrong_shape_not_stamps [of pe] by blast
    then show ?thesis
      by (simp add: check_last_check_time)
  qed
  have c: "last_check_time (checks pes s)
       = (if filter status_shaped pes = [] then last_check_time s
          else Some (p_now (last (filter status_shaped pes))))"
    using checks_last_check_time [of pes s] by (simp add: eq)
  show ?thesis
    using z a b c status_text_time [of t "checks pes s"] by blast
qed

theorem last_check_time_only_on_success_witness:
  "last_check_time (snd (check_tunnel_status timeout_probe named_monitor)) = Some 3
   \<and> last_check_time (snd (check_tunnel_status null_tunnel_probe named_monitor)) = Some 3
   \<and> last_check_time (snd (check_tunnel_status connected_probe named_monitor)) = Some 9
   \<and> last_check_time (checks [connected_probe, timeout_probe, null_tunnel_probe] named_monitor)
       = Some 9
   \<and> Fmt_time 9 \<in> set (get_status_text
                          (checks [connected_probe, timeout_probe, null_tunnel_probe] named_monitor))"
proof -
  note w1 = last_check_time_only_on_success [of timeout_probe named_monitor
      "[connected_probe, timeout_probe, null_tunnel_probe]" 9]
  note w2 = last_check_time_only_on_success [of connected_probe named_monitor "[]" 9]
  note w3 = last_check_time_only_on_success [of null_tunnel_probe named_monitor "[]" 9]
  have st: "status_shaped connected_probe" "\<not> status_shaped timeout_probe"
    "\<not> status_shaped null_tunnel_probe"
    by (simp_all add: status_shaped_def connected_probe_def timeout_probe_def null_tunnel_probe_def)
  have n: "last_check_time named_monitor = Some 3"
    by (simp add: named_monitor_def)
  have now: "p_now connected_probe = 9"
    by (simp add: connected_probe_def)
  have a: "last_check_time (snd (check_tunnel_status timeout_probe named_monitor)) = Some 3"
    using w1 st n by simp
  have a': "last_check_time (snd (check_tunnel_status null_tunnel_probe named_monitor)) = Some 3"
    using w3 st n by simp
  have b: "last_check_time (snd (check_tunnel_status connected_probe named_monitor)) = Some 9"
    using w2 st now by simp
  have c: "last_check_time (checks [connected_probe, timeout_probe, null_tunnel_probe] named_monitor)
      = Some 9"
    using w1 st now by simp
  have d: "Fmt_time 9 \<in> set (get_status_text
      (checks [connected_probe, timeout_probe, null_tunnel_probe] named_monitor))"
    using w1 c by blast
  show ?thesis
    using a a' b c d by simp
qed

text \<open>
  Claim C4: on an iteration whose probe reports connected, whatever the counter was, the
  object is connected afterwards, the counter is 0, \<^verbatim>\<open>update_icon('green')\<close> has been
  called and no restart command has been issued. When there is a tray icon and its
  rendering does not fault, the icon is green.
\<close>

theorem connected_tick:
  assumes "reports_connected (probe env)"
  shows "tunnel_connected (fst (tick env (s, rc))) \<and> snd (tick env (s, rc)) = 0
       \<and> Update_icon Green \<in> set (events_since s (fst (tick env (s, rc))))
       \<and> restart_cmd \<notin> set (events_since s (fst (tick env (s, rc))))
       \<and> (icon s \<noteq> None \<and> render env = None \<longrightarrow> icon (fst (tick env (s, rc))) = Some Green)"
proof -
  obtain l m where tr: "trace (snd (check_tunnel_status (probe env) s)) = trace s @ [status_cmd, Log l m]"
    using check_trace by blast
  show ?thesis
    using assms
    by (simp add: tick_connected_eq Let_def io_defs update_icon_frame update_icon_fst update_icon_icon
        check_connected_field check_frame tr events_since_def status_cmd_def restart_cmd_def
        split: option.splits)
qed

theorem connected_tick_witness:
  "reports_connected (probe healthy_tick)
   \<and> tunnel_connected (fst (tick healthy_tick (running_monitor, 3)))
   \<and> snd (tick healthy_tick (running_monitor, 3)) = 0
   \<and> icon (fst (tick healthy_tick (running_monitor, 3))) = Some Green"
proof -
  have h: "reports_connected (probe healthy_tick)"
    by (simp add: healthy_tick_def connected_probe_connected)
  have i: "icon running_monitor \<noteq> None \<and> render healthy_tick = None"
    by (simp add: running_monitor_def healthy_tick_def)
  show ?thesis
    using h i connected_tick [OF h, of running_monitor 3] by simp
qed

end
